theory Spec2Isabelle
  imports Main "HOL-Library.AList" "HOL-Library.Multiset"
begin

section \<open>JavaScript values and objects\<close>

text \<open>
  The engine of \<^verbatim>\<open>src/data/dataProcessor.jsx\<close> works on plain JavaScript objects whose
  properties hold strings (the dimensions), numbers (the measures and the row id) or
  nothing at all. A property value is modelled by \<open>jsval\<close>. Numbers are the
  integer-valued ones (\<open>Num\<close>) and \<open>NaN\<close>; fractional and infinite doubles and the
  rounding of their sums are outside the model. Strings are lists of 8-bit characters.
\<close>

datatype jsval = Undefined | Null | NaN | Num int | Str string

text \<open>JavaScript truthiness, as tested by \<^verbatim>\<open>!v\<close> and \<^verbatim>\<open>a && b\<close>.\<close>

fun truthy :: "jsval \<Rightarrow> bool" where
  "truthy Undefined = False"
| "truthy Null = False"
| "truthy NaN = False"
| "truthy (Num n) = (n \<noteq> 0)"
| "truthy (Str s) = (s \<noteq> [])"

text \<open>Decimal notation of a natural number and of an integer, as \<^verbatim>\<open>String(n)\<close> prints
  integers (below \<^verbatim>\<open>1e21\<close>).\<close>

fun showNat :: "nat \<Rightarrow> string" where
  "showNat n = (if n < 10 then [''0123456789'' ! n]
                else showNat (n div 10) @ [''0123456789'' ! (n mod 10)])"

declare showNat.simps [simp del]

definition showInt :: "int \<Rightarrow> string" where
  "showInt i = (if i < 0 then CHR ''-'' # showNat (nat (- i)) else showNat (nat i))"

text \<open>\<^verbatim>\<open>String(v)\<close>, which is also what a template literal \<^verbatim>\<open>`${v}`\<close> inserts.\<close>

fun toStringJS :: "jsval \<Rightarrow> string" where
  "toStringJS Undefined = ''undefined''"
| "toStringJS Null = ''null''"
| "toStringJS NaN = ''NaN''"
| "toStringJS (Num n) = showInt n"
| "toStringJS (Str s) = s"

text \<open>The numeric value of an operand of \<^verbatim>\<open>+\<close> that is not a string.\<close>

fun toNumber :: "jsval \<Rightarrow> int option" where
  "toNumber Undefined = None"
| "toNumber Null = Some 0"
| "toNumber NaN = None"
| "toNumber (Num n) = Some n"
| "toNumber (Str s) = None"

fun isStr :: "jsval \<Rightarrow> bool" where
  "isStr (Str s) = True"
| "isStr v = False"

text \<open>The binary \<^verbatim>\<open>+\<close> of JavaScript: concatenation as soon as one operand is a string,
  numeric addition otherwise, with \<^verbatim>\<open>undefined\<close> and \<^verbatim>\<open>NaN\<close> giving \<^verbatim>\<open>NaN\<close> and
  \<^verbatim>\<open>null\<close> counting as 0.\<close>

definition jsAdd :: "jsval \<Rightarrow> jsval \<Rightarrow> jsval" where
  "jsAdd a b =
     (if isStr a \<or> isStr b then Str (toStringJS a @ toStringJS b)
      else (case (toNumber a, toNumber b) of
              (Some m, Some n) \<Rightarrow> Num (m + n)
            | _ \<Rightarrow> NaN))"

text \<open>\<^verbatim>\<open>s.toLowerCase()\<close> on the ASCII letters; other characters are left as they are.\<close>

definition lowerChar :: "char \<Rightarrow> char" where
  "lowerChar c =
     (case List.find (\<lambda>p. fst p = c)
             (zip ''ABCDEFGHIJKLMNOPQRSTUVWXYZ'' ''abcdefghijklmnopqrstuvwxyz'') of
        Some p \<Rightarrow> snd p
      | None \<Rightarrow> c)"

definition toLowerCase :: "string \<Rightarrow> string" where
  "toLowerCase s = map lowerChar s"

text \<open>\<^verbatim>\<open>s.includes(t)\<close>: \<open>t\<close> occurs in \<open>s\<close> as a contiguous substring.\<close>

fun startsWith :: "string \<Rightarrow> string \<Rightarrow> bool" where
  "startsWith s [] = True"
| "startsWith [] (c # t) = False"
| "startsWith (a # s) (c # t) = (a = c \<and> startsWith s t)"

fun includesStr :: "string \<Rightarrow> string \<Rightarrow> bool" where
  "includesStr [] t = (t = [])"
| "includesStr (a # s) t = (startsWith (a # s) t \<or> includesStr s t)"

text \<open>
  Raw rows, facts and rolled-up facts are all object literals over the same eleven
  property names, so one record serves for the three; a property the literal does not
  set is \<open>Undefined\<close>, which is what reading it gives in JavaScript. The property
  \<^verbatim>\<open>id\<close> is the field \<open>item_id\<close> and \<^verbatim>\<open>value\<close> is the field \<open>val\<close>.
\<close>

record item =
  item_id :: jsval
  continent :: jsval
  region :: jsval
  product :: jsval
  quarter :: jsval
  val :: jsval
  Total :: jsval
  Q1 :: jsval
  Q2 :: jsval
  Q3 :: jsval
  Q4 :: jsval

text \<open>The dynamic property read \<^verbatim>\<open>obj[name]\<close> of the object's own properties. The
  names an object inherits (\<^verbatim>\<open>constructor\<close>, \<^verbatim>\<open>toString\<close> and the like) are not
  modelled; the names the application reads are the four dimension names, \<^verbatim>\<open>id\<close>,
  \<^verbatim>\<open>value\<close>, \<^verbatim>\<open>Total\<close> and the four quarters.\<close>

definition getProp :: "item \<Rightarrow> string \<Rightarrow> jsval" where
  "getProp obj name =
     (if name = ''id'' then item_id obj
      else if name = ''continent'' then continent obj
      else if name = ''region'' then region obj
      else if name = ''product'' then product obj
      else if name = ''quarter'' then quarter obj
      else if name = ''value'' then val obj
      else if name = ''Total'' then Total obj
      else if name = ''Q1'' then Q1 obj
      else if name = ''Q2'' then Q2 obj
      else if name = ''Q3'' then Q3 obj
      else if name = ''Q4'' then Q4 obj
      else Undefined)"

record axis_mapping =
  x :: string
  y :: string
  z :: string

section \<open>Fact expansion: processRawData\<close>

text \<open>
  The body of the inner \<^verbatim>\<open>forEach\<close> over the quarters: one fact is pushed when the
  row's value for that quarter is neither \<^verbatim>\<open>undefined\<close> nor \<^verbatim>\<open>null\<close>.
\<close>

definition quarterFact :: "item \<Rightarrow> string \<Rightarrow> item" where
  "quarterFact row q =
     \<lparr> item_id = Str (toStringJS (item_id row) @ ''-'' @ q),
       continent = continent row,
       region = region row,
       product = product row,
       quarter = Str q,
       val = getProp row q,
       Total = Undefined,
       Q1 = Q1 row, Q2 = Q2 row, Q3 = Q3 row, Q4 = Q4 row \<rparr>"

definition pushQuarter :: "item \<Rightarrow> item list \<Rightarrow> string \<Rightarrow> item list" where
  "pushQuarter row processed q =
     (if getProp row q \<noteq> Undefined \<and> getProp row q \<noteq> Null
      then processed @ [quarterFact row q]
      else processed)"

text \<open>The body of the outer \<^verbatim>\<open>forEach\<close> over the rows, with its early \<^verbatim>\<open>return\<close>.
  The \<^verbatim>\<open>console.warn\<close> of a skipped row is a diagnostic and is not recorded.\<close>

definition processRow :: "axis_mapping \<Rightarrow> item list \<Rightarrow> item \<Rightarrow> item list" where
  "processRow axisMapping processed row =
     (if \<not> truthy (getProp row (x axisMapping)) \<or> \<not> truthy (getProp row (y axisMapping))
      then processed
      else foldl (pushQuarter row) processed [''Q1'', ''Q2'', ''Q3'', ''Q4''])"

definition processRawData :: "item list \<Rightarrow> axis_mapping \<Rightarrow> item list" where
  "processRawData rawData axisMapping = foldl (processRow axisMapping) [] rawData"

section \<open>Filter operations: applySlice and applyDice\<close>

text \<open>The test both filters apply to one item: the item's property, as a lower-case
  string, contains the lower-case filter value.\<close>

definition matchesFilter :: "item \<Rightarrow> string \<Rightarrow> string \<Rightarrow> bool" where
  "matchesFilter item dimension value =
     includesStr (toLowerCase (toStringJS (getProp item dimension))) (toLowerCase value)"

text \<open>\<^verbatim>\<open>applySlice(data, dimension, value)\<close>; an empty string is falsy, so an empty
  dimension or value returns the data as they are.\<close>

definition applySlice :: "item list \<Rightarrow> string \<Rightarrow> string \<Rightarrow> item list" where
  "applySlice data dimension value =
     (if dimension = [] \<or> value = [] then data
      else filter (\<lambda>item. matchesFilter item dimension value) data)"

text \<open>
  A filter object \<^verbatim>\<open>{continent: 'Asia', product: 'Electronics'}\<close> is an association list
  from dimension name to filter string, in insertion order; \<^verbatim>\<open>Object.entries\<close> is the
  list itself.
\<close>

type_synonym filters = "(string \<times> string) list"

definition applyDice :: "item list \<Rightarrow> filters \<Rightarrow> item list" where
  "applyDice data fs =
     (if length fs = 0 then data
      else filter (\<lambda>item.
             list_all (\<lambda>(dimension, value).
                if value = [] then True else matchesFilter item dimension value) fs) data)"

section \<open>Pivot, roll-up and drill-down\<close>

definition applyPivot :: "item list \<Rightarrow> axis_mapping \<Rightarrow> axis_mapping" where
  "applyPivot data newAxisMapping = newAxisMapping"

text \<open>The aggregation key \<^verbatim>\<open>`${item.continent}-${item.region}-${item.product}`\<close>.\<close>

definition rollUpKey :: "item \<Rightarrow> string" where
  "rollUpKey item =
     toStringJS (continent item) @ ''-'' @ toStringJS (region item) @ ''-''
       @ toStringJS (product item)"

text \<open>The entry a key gets when it is first seen.\<close>

definition newEntry :: "string \<Rightarrow> item \<Rightarrow> item" where
  "newEntry key item =
     \<lparr> item_id = Str key,
       continent = continent item,
       region = region item,
       product = product item,
       quarter = Undefined,
       val = Undefined,
       Total = Num 0,
       Q1 = Q1 item, Q2 = Q2 item, Q3 = Q3 item, Q4 = Q4 item \<rparr>"

text \<open>
  The \<^verbatim>\<open>Map\<close> of \<^verbatim>\<open>applyRollUp\<close> is an association list in insertion order:
  \<^verbatim>\<open>has\<close> is \<open>map_of\<close>, \<^verbatim>\<open>set\<close> on a new key appends (\<open>AList.update\<close>), and
  \<^verbatim>\<open>current.Total += item.value\<close>, which mutates the entry held by the map, replaces
  the entry in place. \<open>rollUpStep\<close> is the body of the \<^verbatim>\<open>forEach\<close>.
\<close>

definition rollUpStep :: "(string \<times> item) list \<Rightarrow> item \<Rightarrow> (string \<times> item) list" where
  "rollUpStep rolledUpDataMap item =
     (let key = rollUpKey item;
          m = (if map_of rolledUpDataMap key = None
               then AList.update key (newEntry key item) rolledUpDataMap
               else rolledUpDataMap)
      in case map_of m key of
           None \<Rightarrow> m
         | Some current \<Rightarrow>
             if truthy (quarter item) \<and> val item \<noteq> Undefined
             then AList.update key (current\<lparr>Total := jsAdd (Total current) (val item)\<rparr>) m
             else m)"

definition applyRollUp :: "item list \<Rightarrow> item list" where
  "applyRollUp data =
     map (\<lambda>item. item\<lparr>quarter := Str ''Total''\<rparr>)
       (map snd (foldl rollUpStep [] data))"

definition applyDrillDown :: "item list \<Rightarrow> item list \<Rightarrow> item list" where
  "applyDrillDown data originalDataBeforeRollUp = originalDataBeforeRollUp"

section \<open>The cube state of App.jsx\<close>

text \<open>The six \<^verbatim>\<open>useState\<close> cells of \<^verbatim>\<open>App\<close>.\<close>

record cube_state =
  rawData :: "item list"
  cubeData :: "item list"
  axisMapping :: axis_mapping
  currentFilters :: filters
  isRolledUp :: bool
  originalCubeDataBeforeRollUp :: "item list"

definition initialState :: cube_state where
  "initialState =
     \<lparr> rawData = [], cubeData = [],
       axisMapping = \<lparr> x = ''continent'', y = ''region'', z = ''quarter'' \<rparr>,
       currentFilters = [], isRolledUp = False, originalCubeDataBeforeRollUp = [] \<rparr>"

text \<open>The body of the \<^verbatim>\<open>useEffect\<close> that depends on \<^verbatim>\<open>[rawData, axisMapping]\<close>.\<close>

definition recomputeEffect :: "cube_state \<Rightarrow> cube_state" where
  "recomputeEffect s =
     (let s1 = (if length (rawData s) > 0
                then (let processed = processRawData (rawData s) (axisMapping s)
                      in s\<lparr>cubeData := processed, originalCubeDataBeforeRollUp := processed\<rparr>)
                else s\<lparr>cubeData := []\<rparr>)
      in s1\<lparr>isRolledUp := False, currentFilters := []\<rparr>)"

definition handleSlice :: "string \<Rightarrow> string \<Rightarrow> cube_state \<Rightarrow> cube_state" where
  "handleSlice dimension value s =
     (let newFilters = AList.update dimension value (currentFilters s);
          filteredData = applySlice (originalCubeDataBeforeRollUp s) dimension value
      in s\<lparr>currentFilters := newFilters, cubeData := filteredData, isRolledUp := False\<rparr>)"

definition handleDice :: "filters \<Rightarrow> cube_state \<Rightarrow> cube_state" where
  "handleDice fs s =
     (let filteredData = applyDice (originalCubeDataBeforeRollUp s) fs
      in s\<lparr>currentFilters := fs, cubeData := filteredData, isRolledUp := False\<rparr>)"

text \<open>
  \<^verbatim>\<open>handlePivot\<close> stores the new mapping and clears the flag. Its only caller passes a
  fresh object literal, which is never identical to the stored mapping, so the render
  that follows always runs the effect on \<^verbatim>\<open>[rawData, axisMapping]\<close>: the pivot event
  is the handler followed by the effect.
\<close>

definition handlePivot :: "axis_mapping \<Rightarrow> cube_state \<Rightarrow> cube_state" where
  "handlePivot newMapping s = s\<lparr>axisMapping := newMapping, isRolledUp := False\<rparr>"

definition pivotEvent :: "axis_mapping \<Rightarrow> cube_state \<Rightarrow> cube_state" where
  "pivotEvent newMapping s = recomputeEffect (handlePivot newMapping s)"

definition handleRollUp :: "cube_state \<Rightarrow> cube_state" where
  "handleRollUp s =
     (if \<not> isRolledUp s
      then (let rolledUpData = applyRollUp (cubeData s)
            in s\<lparr>originalCubeDataBeforeRollUp := cubeData s,
                 cubeData := rolledUpData, isRolledUp := True\<rparr>)
      else s)"

definition handleDrillDown :: "cube_state \<Rightarrow> cube_state" where
  "handleDrillDown s =
     (if isRolledUp s
      then s\<lparr>cubeData := originalCubeDataBeforeRollUp s, isRolledUp := False\<rparr>
      else if length (currentFilters s) > 0
      then (let processed = processRawData (rawData s) (axisMapping s)
            in s\<lparr>currentFilters := [], cubeData := processed\<rparr>)
      else s)"

text \<open>
  \<^verbatim>\<open>handleApplyPivot\<close> of \<^verbatim>\<open>OlapControls.jsx\<close>, with the three select values as
  arguments. \<^verbatim>\<open>new Set([pivotX, pivotY, pivotZ]).size\<close> is the number of different
  strings among the three. The result pairs what the call writes with
  \<^verbatim>\<open>console.error\<close> with the cube state after the call.
\<close>

definition handleApplyPivot ::
  "string \<Rightarrow> string \<Rightarrow> string \<Rightarrow> cube_state \<Rightarrow> string list \<times> cube_state" where
  "handleApplyPivot pivotX pivotY pivotZ s =
     (let uniqueAxes = remdups [pivotX, pivotY, pivotZ]
      in if length uniqueAxes \<noteq> 3
         then ([''Error: X, Y, and Z axes must be unique for pivoting.''], s)
         else ([], pivotEvent \<lparr> x = pivotX, y = pivotY, z = pivotZ \<rparr> s))"

text \<open>The dimension names \<^verbatim>\<open>App\<close> offers to the controls for the axes.\<close>

definition availableDimensions :: "string list" where
  "availableDimensions = [''continent'', ''region'', ''product'', ''quarter'']"

text \<open>
  \<^verbatim>\<open>handleReset\<close> stores a fresh default mapping, so the effect runs after it as it
  does after a pivot.
\<close>

definition handleReset :: "cube_state \<Rightarrow> cube_state" where
  "handleReset s =
     (let defaultMap = \<lparr> x = ''continent'', y = ''region'', z = ''quarter'' \<rparr>;
          resetCube = processRawData (rawData s) defaultMap
      in s\<lparr>axisMapping := defaultMap, currentFilters := [], isRolledUp := False,
           cubeData := resetCube, originalCubeDataBeforeRollUp := resetCube\<rparr>)"

definition resetEvent :: "cube_state \<Rightarrow> cube_state" where
  "resetEvent s = recomputeEffect (handleReset s)"

text \<open>\<^verbatim>\<open>handleDataTableChange\<close> stores the rows the table hands over. The table
  hands over a new array after every edit, and the effect runs after the store.\<close>

definition handleDataTableChange :: "item list \<Rightarrow> cube_state \<Rightarrow> cube_state" where
  "handleDataTableChange newData s = recomputeEffect (s\<lparr>rawData := newData\<rparr>)"

section \<open>Example inputs\<close>

text \<open>The default mapping of \<^verbatim>\<open>App\<close>, two table rows (the second with a \<^verbatim>\<open>null\<close> and
  a missing quarter), and the state after the first row has been loaded.\<close>

definition defaultMapping :: axis_mapping where
  "defaultMapping = \<lparr> x = ''continent'', y = ''region'', z = ''quarter'' \<rparr>"

definition exampleRow :: item where
  "exampleRow =
     \<lparr> item_id = Num 1, continent = Str ''Asia'', region = Str ''East'', product = Str ''A'',
       quarter = Undefined, val = Undefined, Total = Undefined,
       Q1 = Num 10, Q2 = Num 20, Q3 = Num 30, Q4 = Num 40 \<rparr>"

definition exampleRow2 :: item where
  "exampleRow2 =
     \<lparr> item_id = Num 2, continent = Str ''Europe'', region = Str ''West'', product = Str ''B'',
       quarter = Undefined, val = Undefined, Total = Undefined,
       Q1 = Num 1, Q2 = Num 2, Q3 = Null, Q4 = Undefined \<rparr>"

definition loadedState :: cube_state where
  "loadedState = handleDataTableChange [exampleRow] initialState"

text \<open>A second table row with four numbers, the state after both rows have been
  loaded, and the state after the user has sliced on the continent, rolled up, deleted
  every row of the table and loaded the empty table (a new array, so the effect
  runs).\<close>

definition europeRow :: item where
  "europeRow =
     \<lparr> item_id = Num 2, continent = Str ''Europe'', region = Str ''West'', product = Str ''B'',
       quarter = Undefined, val = Undefined, Total = Undefined,
       Q1 = Num 1, Q2 = Num 2, Q3 = Num 3, Q4 = Num 4 \<rparr>"

definition twoRowsState :: cube_state where
  "twoRowsState = handleDataTableChange [exampleRow, europeRow] initialState"


text \<open>Two rows of different (continent, region, product) whose dimension strings
  contain the separator of the aggregation key.\<close>

definition collidingRows :: "item list" where
  "collidingRows =
     [exampleRow\<lparr>continent := Str ''a-b'', region := Str ''c''\<rparr>,
      exampleRow\<lparr>item_id := Num 2, continent := Str ''a'', region := Str ''b-c'',
                 Q1 := Num 1, Q2 := Num 2, Q3 := Num 3, Q4 := Num 4\<rparr>]"

section \<open>Roll-up described group by group\<close>

text \<open>The items of a collection whose aggregation key has not occurred before them
  (nor in \<open>seen\<close>), in order.\<close>

fun firstOccurrences :: "string list \<Rightarrow> item list \<Rightarrow> item list" where
  "firstOccurrences seen [] = []"
| "firstOccurrences seen (i # data) =
     (if rollUpKey i \<in> set seen then firstOccurrences seen data
      else i # firstOccurrences (rollUpKey i # seen) data)"

text \<open>The running \<^verbatim>\<open>+=\<close> over the values of the items with a given key that pass the
  guard \<^verbatim>\<open>item.quarter && item.value !== undefined\<close>, from 0, in input order.\<close>

definition rollUpTotal :: "string \<Rightarrow> item list \<Rightarrow> jsval" where
  "rollUpTotal key data =
     foldl jsAdd (Num 0)
       (map val (filter (\<lambda>i. rollUpKey i = key \<and> truthy (quarter i) \<and> val i \<noteq> Undefined) data))"

text \<open>The map entry of a key whose first item is \<open>first\<close>.\<close>

definition groupEntry :: "item \<Rightarrow> item list \<Rightarrow> item" where
  "groupEntry first data =
     (newEntry (rollUpKey first) first)\<lparr>Total := rollUpTotal (rollUpKey first) data\<rparr>"

text \<open>The map after the \<^verbatim>\<open>forEach\<close>, described key by key.\<close>

definition rollUpMap :: "item list \<Rightarrow> (string \<times> item) list" where
  "rollUpMap data =
     map (\<lambda>first. (rollUpKey first, groupEntry first data)) (firstOccurrences [] data)"

text \<open>The group of an item as the specification has it: its (continent, region,
  product).\<close>

definition triple :: "item \<Rightarrow> jsval \<times> jsval \<times> jsval" where
  "triple i = (continent i, region i, product i)"

text \<open>The number held by the value of a quarter fact.\<close>

definition numVal :: "item \<Rightarrow> int" where
  "numVal i = (case val i of Num n \<Rightarrow> n | _ \<Rightarrow> 0)"

text \<open>Every item is a quarter fact: it names a quarter and its value is a number.\<close>

definition quarterFacts :: "item list \<Rightarrow> bool" where
  "quarterFacts data = list_all (\<lambda>i. truthy (quarter i) \<and> val i = Num (numVal i)) data"

text \<open>No two items of different groups have the same aggregation key.\<close>

definition keysSeparate :: "item list \<Rightarrow> bool" where
  "keysSeparate data =
     list_all (\<lambda>i. list_all (\<lambda>j. rollUpKey i = rollUpKey j \<longrightarrow> triple i = triple j) data) data"

text \<open>The three dimensions are strings, and neither the continent nor the region
  contains the separator of the key.\<close>

definition dashFree :: "item \<Rightarrow> bool" where
  "dashFree i =
     (case (continent i, region i, product i) of
        (Str c, Str r, Str p) \<Rightarrow> CHR ''-'' \<notin> set c \<and> CHR ''-'' \<notin> set r
      | _ \<Rightarrow> False)"

section \<open>Expansion: one row at a time\<close>

lemma processRow_acc: "processRow m acc row = acc @ processRow m [] row"
  by (simp add: processRow_def pushQuarter_def)

lemma foldl_processRow_acc:
  "foldl (processRow m) acc rows = acc @ foldl (processRow m) [] rows"
proof (induction rows arbitrary: acc)
  case Nil
  then show ?case by simp
next
  case (Cons r rows)
  have "foldl (processRow m) acc (r # rows) = foldl (processRow m) (processRow m acc r) rows"
    by simp
  also have "\<dots> = processRow m acc r @ foldl (processRow m) [] rows"
    by (rule Cons.IH)
  also have "\<dots> = acc @ processRow m [] r @ foldl (processRow m) [] rows"
    by (subst processRow_acc) simp
  also have "processRow m [] r @ foldl (processRow m) [] rows
             = foldl (processRow m) (processRow m [] r) rows"
    by (rule Cons.IH [symmetric])
  finally show ?case by simp
qed

lemma processRawData_append:
  "processRawData (rows1 @ rows2) m = processRawData rows1 m @ processRawData rows2 m"
  unfolding processRawData_def by (simp add: foldl_processRow_acc [symmetric])

lemma processRawData_single:
  "processRawData [row] m =
     (if truthy (getProp row (x m)) \<and> truthy (getProp row (y m))
      then map (quarterFact row)
             (filter (\<lambda>q. getProp row q \<noteq> Undefined \<and> getProp row q \<noteq> Null)
                [''Q1'', ''Q2'', ''Q3'', ''Q4''])
      else [])"
  by (simp add: processRawData_def processRow_def pushQuarter_def)

lemma loadedState_fields:
  "rawData loadedState = [exampleRow]"
  "cubeData loadedState = processRawData [exampleRow] defaultMapping"
  "originalCubeDataBeforeRollUp loadedState = processRawData [exampleRow] defaultMapping"
  "axisMapping loadedState = defaultMapping"
  "currentFilters loadedState = []"
  "\<not> isRolledUp loadedState"
  by (simp_all add: loadedState_def handleDataTableChange_def recomputeEffect_def
        initialState_def defaultMapping_def Let_def)

text \<open>
  The scenario of the specification: the row expands into four facts with the values
  10, 20, 30 and 40, and their roll-up is one fact with the total 100.
\<close>

lemma scenario_expansion:
  "map val (processRawData [exampleRow] defaultMapping) = [Num 10, Num 20, Num 30, Num 40]"
  by code_simp

lemma scenario_rollUp:
  "map Total (applyRollUp (processRawData [exampleRow] defaultMapping)) = [Num 100]"
  by code_simp

lemma scenario_slices:
  "applySlice (processRawData [exampleRow] defaultMapping) ''continent'' ''asia''
     = processRawData [exampleRow] defaultMapping"
  "applySlice (processRawData [exampleRow] defaultMapping) ''continent'' ''europe'' = []"
  by code_simp+

lemma twoRowsState_fields:
  "rawData twoRowsState = [exampleRow, europeRow]"
  "cubeData twoRowsState = processRawData [exampleRow, europeRow] defaultMapping"
  "originalCubeDataBeforeRollUp twoRowsState
     = processRawData [exampleRow, europeRow] defaultMapping"
  "axisMapping twoRowsState = defaultMapping"
  "currentFilters twoRowsState = []"
  "\<not> isRolledUp twoRowsState"
  by (simp_all add: twoRowsState_def handleDataTableChange_def recomputeEffect_def
        initialState_def defaultMapping_def Let_def)

lemma two_rows_expansion:
  "map item_id (processRawData [exampleRow, europeRow] defaultMapping)
     = [Str ''1-Q1'', Str ''1-Q2'', Str ''1-Q3'', Str ''1-Q4'',
        Str ''2-Q1'', Str ''2-Q2'', Str ''2-Q3'', Str ''2-Q4'']"
  by code_simp

lemma two_rows_slice_asia:
  "applySlice (processRawData [exampleRow, europeRow] defaultMapping) ''continent'' ''asia''
     = processRawData [exampleRow] defaultMapping"
  by code_simp

lemma one_row_ids:
  "map item_id (processRawData [exampleRow] defaultMapping)
     = [Str ''1-Q1'', Str ''1-Q2'', Str ''1-Q3'', Str ''1-Q4'']"
  by code_simp


section \<open>Expansion claims\<close>

text \<open>
  A row can hold a value for both mapped dimensions, and four defined quarters, and
  still emit no fact: the region of this row is present and blank.
\<close>

theorem blank_region_counterexample:
  "getProp (exampleRow\<lparr>region := Str ''''\<rparr>) (x defaultMapping) = Str ''Asia''
   \<and> getProp (exampleRow\<lparr>region := Str ''''\<rparr>) (y defaultMapping) = Str ''''
   \<and> getProp (exampleRow\<lparr>region := Str ''''\<rparr>) ''Q1'' = Num 10
   \<and> getProp (exampleRow\<lparr>region := Str ''''\<rparr>) ''Q2'' = Num 20
   \<and> getProp (exampleRow\<lparr>region := Str ''''\<rparr>) ''Q3'' = Num 30
   \<and> getProp (exampleRow\<lparr>region := Str ''''\<rparr>) ''Q4'' = Num 40
   \<and> length (processRawData [exampleRow\<lparr>region := Str ''''\<rparr>] defaultMapping) = 0"
  by (simp add: processRawData_single getProp_def exampleRow_def defaultMapping_def)

text \<open>
  Claim C3, amended. The mapped names are dimension names. The facts of a collection
  are the facts of its rows, in row order. A row whose values under the dimensions
  mapped to X and to Y are both truthy (for a string: not blank) emits one fact for
  each of Q1..Q4 whose value is neither \<^verbatim>\<open>undefined\<close> nor \<^verbatim>\<open>null\<close>, so as many
  facts as it has such values; each fact carries that quarter's value and the row's
  four measures. A row whose value for X or for Y is falsy (missing, \<^verbatim>\<open>null\<close> or
  blank) emits no fact.
\<close>

theorem expansion_per_row:
  assumes "x m \<in> set availableDimensions" and "y m \<in> set availableDimensions"
  shows
  "processRawData (before @ row # after) m
     = processRawData before m @ processRawData [row] m @ processRawData after m
   \<and> (truthy (getProp row (x m)) \<and> truthy (getProp row (y m)) \<longrightarrow>
        processRawData [row] m
          = map (quarterFact row)
              (filter (\<lambda>q. getProp row q \<noteq> Undefined \<and> getProp row q \<noteq> Null)
                 [''Q1'', ''Q2'', ''Q3'', ''Q4''])
      \<and> length (processRawData [row] m)
          = length (filter (\<lambda>q. getProp row q \<noteq> Undefined \<and> getProp row q \<noteq> Null)
                      [''Q1'', ''Q2'', ''Q3'', ''Q4''])
      \<and> (\<forall>f \<in> set (processRawData [row] m).
            \<exists>q \<in> set [''Q1'', ''Q2'', ''Q3'', ''Q4''].
              quarter f = Str q \<and> val f = getProp row q
              \<and> val f \<noteq> Undefined \<and> val f \<noteq> Null
              \<and> Q1 f = Q1 row \<and> Q2 f = Q2 row \<and> Q3 f = Q3 row \<and> Q4 f = Q4 row))
   \<and> (\<not> truthy (getProp row (x m)) \<or> \<not> truthy (getProp row (y m)) \<longrightarrow>
        processRawData [row] m = [])"
proof -
  have split: "processRawData (before @ row # after) m
     = processRawData before m @ processRawData [row] m @ processRawData after m"
    using processRawData_append [of before "[row] @ after" m]
      processRawData_append [of "[row]" after m] by simp
  have skip: "\<not> truthy (getProp row (x m)) \<or> \<not> truthy (getProp row (y m)) \<longrightarrow>
        processRawData [row] m = []"
    by (simp add: processRawData_single)
  have keep: "processRawData [row] m
          = map (quarterFact row)
              (filter (\<lambda>q. getProp row q \<noteq> Undefined \<and> getProp row q \<noteq> Null)
                 [''Q1'', ''Q2'', ''Q3'', ''Q4''])"
    if "truthy (getProp row (x m)) \<and> truthy (getProp row (y m))"
    using that by (simp add: processRawData_single)
  have fields: "\<forall>f \<in> set (map (quarterFact row)
              (filter (\<lambda>q. getProp row q \<noteq> Undefined \<and> getProp row q \<noteq> Null)
                 [''Q1'', ''Q2'', ''Q3'', ''Q4''])).
            \<exists>q \<in> set [''Q1'', ''Q2'', ''Q3'', ''Q4''].
              quarter f = Str q \<and> val f = getProp row q
              \<and> val f \<noteq> Undefined \<and> val f \<noteq> Null
              \<and> Q1 f = Q1 row \<and> Q2 f = Q2 row \<and> Q3 f = Q3 row \<and> Q4 f = Q4 row"
    by (auto simp: quarterFact_def)
  from split skip keep fields show ?thesis by (simp del: set_map set_filter)
qed

theorem expansion_per_row_witness:
  "x defaultMapping \<in> set availableDimensions
   \<and> y defaultMapping \<in> set availableDimensions
   \<and> truthy (getProp exampleRow2 (x defaultMapping))
   \<and> truthy (getProp exampleRow2 (y defaultMapping))
   \<and> length (processRawData [exampleRow2] defaultMapping) = 2
   \<and> map val (processRawData [exampleRow2] defaultMapping) = [Num 1, Num 2]
   \<and> processRawData [exampleRow, exampleRow2] defaultMapping
       = processRawData [exampleRow] defaultMapping @ processRawData [exampleRow2] defaultMapping
   \<and> \<not> truthy (getProp (exampleRow\<lparr>region := Undefined\<rparr>) (y defaultMapping))
   \<and> processRawData [exampleRow\<lparr>region := Undefined\<rparr>] defaultMapping = []"
proof -
  have dx: "x defaultMapping \<in> set availableDimensions"
    and dy: "y defaultMapping \<in> set availableDimensions"
    by (simp_all add: defaultMapping_def availableDimensions_def)
  have p: "truthy (getProp exampleRow2 (x defaultMapping))
           \<and> truthy (getProp exampleRow2 (y defaultMapping))"
    by (simp add: getProp_def exampleRow2_def defaultMapping_def)
  have n: "\<not> truthy (getProp (exampleRow\<lparr>region := Undefined\<rparr>) (y defaultMapping))"
    by (simp add: getProp_def exampleRow_def defaultMapping_def)
  have c: "filter (\<lambda>q. getProp exampleRow2 q \<noteq> Undefined \<and> getProp exampleRow2 q \<noteq> Null)
             [''Q1'', ''Q2'', ''Q3'', ''Q4''] = [''Q1'', ''Q2'']"
    by (simp add: getProp_def exampleRow2_def)
  note t = expansion_per_row [OF dx dy, of "[exampleRow]" exampleRow2 "[]"]
  from t p have facts: "processRawData [exampleRow2] defaultMapping
      = map (quarterFact exampleRow2) [''Q1'', ''Q2'']"
    unfolding c by blast
  have a: "length (processRawData [exampleRow2] defaultMapping) = 2"
    unfolding facts by simp
  have v: "map val (processRawData [exampleRow2] defaultMapping) = [Num 1, Num 2]"
    unfolding facts by (simp add: quarterFact_def getProp_def exampleRow2_def)
  from t have b: "processRawData [exampleRow, exampleRow2] defaultMapping
       = processRawData [exampleRow] defaultMapping @ processRawData [exampleRow2] defaultMapping"
    by (simp add: processRawData_def)
  from expansion_per_row [OF dx dy, of "[]" "exampleRow\<lparr>region := Undefined\<rparr>" "[]"] n
  have e: "processRawData [exampleRow\<lparr>region := Undefined\<rparr>] defaultMapping = []"
    by blast
  from dx dy p n a v b e show ?thesis by blast
qed

text \<open>
  The tolerance of blank strings fails for the mapped dimensions: a row whose continent
  is the blank string is skipped under the default mapping.
\<close>

theorem blank_mapped_dimension_counterexample:
  "getProp (exampleRow\<lparr>continent := Str ''''\<rparr>) ''continent'' = Str ''''
   \<and> x defaultMapping = ''continent''
   \<and> processRawData [exampleRow\<lparr>continent := Str ''''\<rparr>] defaultMapping = []"
  by (simp add: processRawData_single getProp_def exampleRow_def defaultMapping_def)

text \<open>
  Claim C7, amended. A row whose value under the dimension mapped to X or to Y is the
  blank string is skipped, like a row without that value. A row that passes the test
  for X and Y is expanded whatever its other dimension fields hold, and its facts carry
  the row's continent, region and product unchanged, blank strings included.
\<close>

theorem blank_dimension_handling:
  "(getProp row (x m) = Str '''' \<or> getProp row (y m) = Str '''' \<longrightarrow>
      processRawData [row] m = [])
   \<and> (truthy (getProp row (x m)) \<and> truthy (getProp row (y m)) \<longrightarrow>
        processRawData [row] m
          = map (quarterFact row)
              (filter (\<lambda>q. getProp row q \<noteq> Undefined \<and> getProp row q \<noteq> Null)
                 [''Q1'', ''Q2'', ''Q3'', ''Q4''])
      \<and> (\<forall>f \<in> set (processRawData [row] m).
            continent f = continent row \<and> region f = region row \<and> product f = product row))"
proof -
  have blank: "getProp row (x m) = Str '''' \<or> getProp row (y m) = Str '''' \<longrightarrow>
      processRawData [row] m = []"
    by (auto simp: processRawData_single)
  have dims: "\<forall>f \<in> set (map (quarterFact row) qs).
            continent f = continent row \<and> region f = region row \<and> product f = product row"
    for qs
    by (simp add: quarterFact_def)
  from blank dims show ?thesis by (simp add: processRawData_single del: set_map)
qed

theorem blank_dimension_handling_witness:
  "getProp (exampleRow\<lparr>region := Str ''''\<rparr>) (y defaultMapping) = Str ''''
   \<and> processRawData [exampleRow\<lparr>region := Str ''''\<rparr>] defaultMapping = []
   \<and> truthy (getProp (exampleRow\<lparr>product := Str ''''\<rparr>) (x defaultMapping))
   \<and> truthy (getProp (exampleRow\<lparr>product := Str ''''\<rparr>) (y defaultMapping))
   \<and> map quarter (processRawData [exampleRow\<lparr>product := Str ''''\<rparr>] defaultMapping)
       = [Str ''Q1'', Str ''Q2'', Str ''Q3'', Str ''Q4'']
   \<and> map product (processRawData [exampleRow\<lparr>product := Str ''''\<rparr>] defaultMapping)
       = [Str '''', Str '''', Str '''', Str '''']"
proof -
  have b: "getProp (exampleRow\<lparr>region := Str ''''\<rparr>) (y defaultMapping) = Str ''''"
    by (simp add: getProp_def defaultMapping_def)
  have t: "truthy (getProp (exampleRow\<lparr>product := Str ''''\<rparr>) (x defaultMapping))
           \<and> truthy (getProp (exampleRow\<lparr>product := Str ''''\<rparr>) (y defaultMapping))"
    by (simp add: getProp_def exampleRow_def defaultMapping_def)
  from blank_dimension_handling [of "exampleRow\<lparr>region := Str ''''\<rparr>" defaultMapping] b
  have skipped: "processRawData [exampleRow\<lparr>region := Str ''''\<rparr>] defaultMapping = []"
    by blast
  from blank_dimension_handling [of "exampleRow\<lparr>product := Str ''''\<rparr>" defaultMapping] t
  have kept: "processRawData [exampleRow\<lparr>product := Str ''''\<rparr>] defaultMapping
          = map (quarterFact (exampleRow\<lparr>product := Str ''''\<rparr>))
              (filter (\<lambda>q. getProp (exampleRow\<lparr>product := Str ''''\<rparr>) q \<noteq> Undefined
                         \<and> getProp (exampleRow\<lparr>product := Str ''''\<rparr>) q \<noteq> Null)
                 [''Q1'', ''Q2'', ''Q3'', ''Q4''])"
    by blast
  have q: "map quarter (processRawData [exampleRow\<lparr>product := Str ''''\<rparr>] defaultMapping)
       = [Str ''Q1'', Str ''Q2'', Str ''Q3'', Str ''Q4'']"
    unfolding kept by (simp add: getProp_def exampleRow_def quarterFact_def)
  have p: "map product (processRawData [exampleRow\<lparr>product := Str ''''\<rparr>] defaultMapping)
       = [Str '''', Str '''', Str '''', Str '''']"
    unfolding kept by (simp add: getProp_def exampleRow_def quarterFact_def)
  from b t skipped q p show ?thesis by blast
qed

section \<open>Filter claims\<close>

lemma filter_mem_filter:
  "filter (\<lambda>i. i \<in> set (filter P xs)) (filter Q xs) = filter (\<lambda>i. Q i \<and> P i) xs"
proof -
  have "filter (\<lambda>i. i \<in> set (filter P xs)) (filter Q xs)
        = filter (\<lambda>i. Q i \<and> i \<in> set xs \<and> P i) xs"
    by simp
  also have "\<dots> = filter (\<lambda>i. Q i \<and> P i) xs"
    by (rule filter_cong) auto
  finally show ?thesis .
qed

lemma slices_intersect:
  "filter (\<lambda>i. i \<in> set (if b2 then xs else filter P xs)) (if b1 then xs else filter Q xs)
     = filter (\<lambda>i. (b1 \<or> Q i) \<and> (b2 \<or> P i)) xs"
proof -
  have e1: "(if b1 then xs else filter Q xs) = filter (\<lambda>i. b1 \<or> Q i) xs" by simp
  have e2: "(if b2 then xs else filter P xs) = filter (\<lambda>i. b2 \<or> P i) xs" by simp
  show ?thesis unfolding e1 e2 by (rule filter_mem_filter)
qed

lemma applySlice_filter:
  "d \<noteq> [] \<Longrightarrow> applySlice S d v = (if v = [] then S else filter (\<lambda>i. matchesFilter i d v) S)"
  by (simp add: applySlice_def)

lemma applyDice_two:
  "applyDice S [(d1, v1), (d2, v2)]
     = filter (\<lambda>i. (v1 = [] \<or> matchesFilter i d1 v1) \<and> (v2 = [] \<or> matchesFilter i d2 v2)) S"
  unfolding applyDice_def by (auto intro: filter_cong)

lemma applyDice_one:
  "applyDice S [(d, v)] = filter (\<lambda>i. v = [] \<or> matchesFilter i d v) S"
  unfolding applyDice_def by (auto intro: filter_cong)

text \<open>
  Claim C9. For two different dimension names \<open>d1\<close> and \<open>d2\<close> (non-empty, as every
  dimension name is), the dice by the filter object \<^verbatim>\<open>{d1: v1, d2: v2}\<close> is the slice by
  \<open>(d1, v1)\<close> restricted to the items of the slice by \<open>(d2, v2)\<close>, its items are the
  intersection of the items of the two slices, and the dice by \<^verbatim>\<open>{d1: v1}\<close> alone, or
  by \<^verbatim>\<open>{d1: v1, d2: ''}\<close> where only the first filter is active, is the slice by
  \<open>(d1, v1)\<close>.
\<close>

theorem dice_is_intersection_of_slices:
  assumes "d1 \<noteq> []" and "d2 \<noteq> []" and "d1 \<noteq> d2"
  shows "applyDice S (AList.update d2 v2 (AList.update d1 v1 []))
           = filter (\<lambda>i. i \<in> set (applySlice S d2 v2)) (applySlice S d1 v1)
       \<and> set (applyDice S (AList.update d2 v2 (AList.update d1 v1 [])))
           = set (applySlice S d1 v1) \<inter> set (applySlice S d2 v2)
       \<and> applyDice S (AList.update d1 v1 []) = applySlice S d1 v1
       \<and> applyDice S (AList.update d2 [] (AList.update d1 v1 [])) = applySlice S d1 v1"
proof -
  have obj: "AList.update d2 v2 (AList.update d1 v1 []) = [(d1, v1), (d2, v2)]"
    using assms(3) by simp
  have two: "applyDice S [(d1, v1), (d2, v2)]
           = filter (\<lambda>i. i \<in> set (applySlice S d2 v2)) (applySlice S d1 v1)"
    unfolding applySlice_filter [OF assms(1)] applySlice_filter [OF assms(2)]
      slices_intersect applyDice_two ..
  have "set (filter (\<lambda>i. i \<in> set (applySlice S d2 v2)) (applySlice S d1 v1))
          = set (applySlice S d1 v1) \<inter> set (applySlice S d2 v2)"
    by auto
  with two have inter: "set (applyDice S [(d1, v1), (d2, v2)])
          = set (applySlice S d1 v1) \<inter> set (applySlice S d2 v2)"
    by simp
  have one: "applyDice S (AList.update d1 v1 []) = applySlice S d1 v1"
    unfolding applySlice_filter [OF assms(1)] by (simp add: applyDice_one)
  have obj': "AList.update d2 [] (AList.update d1 v1 []) = [(d1, v1), (d2, [])]"
    using assms(3) by simp
  have idle: "applyDice S [(d1, v1), (d2, [])] = applySlice S d1 v1"
    unfolding applySlice_filter [OF assms(1)] by (simp add: applyDice_two)
  from two inter one idle show ?thesis unfolding obj obj' by blast
qed

theorem dice_is_intersection_of_slices_witness:
  "''continent'' \<noteq> [] \<and> ''product'' \<noteq> [] \<and> ''continent'' \<noteq> ''product''
   \<and> applyDice (processRawData [exampleRow, exampleRow2] defaultMapping)
        (AList.update ''product'' ''a'' (AList.update ''continent'' ''ASIA'' []))
       = filter (\<lambda>i. i \<in> set (applySlice
                   (processRawData [exampleRow, exampleRow2] defaultMapping) ''product'' ''a''))
           (applySlice (processRawData [exampleRow, exampleRow2] defaultMapping)
              ''continent'' ''ASIA'')
   \<and> applyDice (processRawData [exampleRow, exampleRow2] defaultMapping)
        (AList.update ''continent'' ''ASIA'' [])
       = applySlice (processRawData [exampleRow, exampleRow2] defaultMapping)
           ''continent'' ''ASIA''
   \<and> applySlice (processRawData [exampleRow, exampleRow2] defaultMapping) ''continent'' ''ASIA''
       = processRawData [exampleRow] defaultMapping
   \<and> length (processRawData [exampleRow, exampleRow2] defaultMapping) = 6"
proof -
  have h1: "''continent'' \<noteq> []" and h2: "''product'' \<noteq> []"
    and h3: "''continent'' \<noteq> ''product''"
    by simp_all
  have s: "applySlice (processRawData [exampleRow, exampleRow2] defaultMapping)
             ''continent'' ''ASIA'' = processRawData [exampleRow] defaultMapping"
    by code_simp
  have l: "length (processRawData [exampleRow, exampleRow2] defaultMapping) = 6"
    by code_simp
  from dice_is_intersection_of_slices [OF h1 h2 h3,
      of "processRawData [exampleRow, exampleRow2] defaultMapping" "''a''" "''ASIA''"]
    h1 h2 h3 s l
  show ?thesis by blast
qed

section \<open>State machine claims\<close>

text \<open>
  Claim C8. In a state whose rolled-up flag is set, the roll-up event changes nothing:
  the facts, the snapshot and the flag (and every other cell) stay as they are.
\<close>

theorem rollUp_noop_when_rolled_up:
  "isRolledUp s \<Longrightarrow> handleRollUp s = s"
  by (simp add: handleRollUp_def)

theorem rollUp_noop_when_rolled_up_witness:
  "isRolledUp (handleRollUp loadedState)
   \<and> cubeData (handleRollUp loadedState) \<noteq> cubeData loadedState
   \<and> handleRollUp (handleRollUp loadedState) = handleRollUp loadedState"
proof -
  have h: "isRolledUp (handleRollUp loadedState)"
    by (simp add: handleRollUp_def loadedState_fields)
  have "map Total (cubeData (handleRollUp loadedState)) = [Num 100]"
    by (simp add: handleRollUp_def loadedState_fields scenario_rollUp)
  moreover have "map Total (cubeData loadedState) \<noteq> [Num 100]"
    unfolding loadedState_fields by code_simp
  ultimately have d: "cubeData (handleRollUp loadedState) \<noteq> cubeData loadedState"
    by metis
  from rollUp_noop_when_rolled_up [OF h] h d show ?thesis by simp
qed

text \<open>
  Claim C2. From a state that is not rolled up, the roll-up event stores the current
  facts as the snapshot and replaces them by their aggregation; the drill-down event
  that follows puts the snapshot back and clears the flag. The facts are again those
  of the starting state, item for item, and the state differs from the starting state
  in the snapshot cell only.
\<close>

theorem drillDown_after_rollUp:
  "\<not> isRolledUp s \<Longrightarrow>
     cubeData (handleRollUp s) = applyRollUp (cubeData s)
   \<and> originalCubeDataBeforeRollUp (handleRollUp s) = cubeData s
   \<and> isRolledUp (handleRollUp s)
   \<and> cubeData (handleDrillDown (handleRollUp s)) = cubeData s
   \<and> \<not> isRolledUp (handleDrillDown (handleRollUp s))
   \<and> handleDrillDown (handleRollUp s) = s\<lparr>originalCubeDataBeforeRollUp := cubeData s\<rparr>"
  by (simp add: handleRollUp_def handleDrillDown_def)

theorem drillDown_after_rollUp_witness:
  "\<not> isRolledUp loadedState
   \<and> map val (cubeData loadedState) = [Num 10, Num 20, Num 30, Num 40]
   \<and> map Total (cubeData (handleRollUp loadedState)) = [Num 100]
   \<and> cubeData (handleDrillDown (handleRollUp loadedState)) = cubeData loadedState
   \<and> \<not> isRolledUp (handleDrillDown (handleRollUp loadedState))"
proof -
  have h: "\<not> isRolledUp loadedState"
    by (simp add: loadedState_fields)
  have v: "map val (cubeData loadedState) = [Num 10, Num 20, Num 30, Num 40]"
    by (simp add: loadedState_fields scenario_expansion)
  from drillDown_after_rollUp [OF h]
  have t: "map Total (cubeData (handleRollUp loadedState)) = [Num 100]"
    by (simp add: loadedState_fields scenario_rollUp)
  from drillDown_after_rollUp [OF h] h v t show ?thesis by simp
qed

text \<open>
  An accepted pivot request (three different axis names) leaves a state whose facts
  are the expansion of the raw rows under the new mapping, whose filter object is empty
  and whose flag is cleared. When the raw rows are not empty the whole state is
  determined by the raw rows and the new mapping: the stored baseline is the same
  expansion, and nothing of the filters, the roll-up or the facts of the state before
  is left.
\<close>

lemma accepted_pivot_full_state:
  assumes "distinct [pivotX, pivotY, pivotZ]" and "rawData s \<noteq> []"
  shows "handleApplyPivot pivotX pivotY pivotZ s
           = ([], \<lparr> rawData = rawData s,
                    cubeData = processRawData (rawData s)
                                 \<lparr> x = pivotX, y = pivotY, z = pivotZ \<rparr>,
                    axisMapping = \<lparr> x = pivotX, y = pivotY, z = pivotZ \<rparr>,
                    currentFilters = [],
                    isRolledUp = False,
                    originalCubeDataBeforeRollUp
                      = processRawData (rawData s) \<lparr> x = pivotX, y = pivotY, z = pivotZ \<rparr> \<rparr>)"
  using assms
  by (simp add: handleApplyPivot_def pivotEvent_def handlePivot_def recomputeEffect_def
        Let_def)

lemma accepted_pivot_facts:
  assumes "distinct [pivotX, pivotY, pivotZ]"
  shows "cubeData (snd (handleApplyPivot pivotX pivotY pivotZ s))
           = processRawData (rawData s) \<lparr> x = pivotX, y = pivotY, z = pivotZ \<rparr>
       \<and> currentFilters (snd (handleApplyPivot pivotX pivotY pivotZ s)) = []
       \<and> \<not> isRolledUp (snd (handleApplyPivot pivotX pivotY pivotZ s))"
  using assms
  by (simp add: handleApplyPivot_def pivotEvent_def handlePivot_def recomputeEffect_def
        processRawData_def Let_def)

text \<open>The pivot of a sliced and rolled-up state to the axes product and region: the row
  with the blank product is skipped and the facts are those of the other row.\<close>

lemma accepted_pivot_example:
  "map (\<lambda>f. (item_id f, val f))
     (cubeData (snd (handleApplyPivot ''product'' ''region'' ''quarter''
        (handleRollUp (handleSlice ''continent'' ''asia''
           (twoRowsState\<lparr>rawData := [exampleRow\<lparr>product := Str ''''\<rparr>, europeRow]\<rparr>))))))
     = [(Str ''2-Q1'', Num 1), (Str ''2-Q2'', Num 2), (Str ''2-Q3'', Num 3),
        (Str ''2-Q4'', Num 4)]"
proof -
  have d: "distinct [''product'', ''region'', ''quarter'']" by simp
  have r: "rawData (handleRollUp (handleSlice ''continent'' ''asia''
           (twoRowsState\<lparr>rawData := [exampleRow\<lparr>product := Str ''''\<rparr>, europeRow]\<rparr>)))
         = [exampleRow\<lparr>product := Str ''''\<rparr>, europeRow]"
    by (simp add: handleRollUp_def handleSlice_def Let_def)
  have e: "map (\<lambda>f. (item_id f, val f))
      (processRawData [exampleRow\<lparr>product := Str ''''\<rparr>, europeRow]
         \<lparr> x = ''product'', y = ''region'', z = ''quarter'' \<rparr>)
     = [(Str ''2-Q1'', Num 1), (Str ''2-Q2'', Num 2), (Str ''2-Q3'', Num 3),
        (Str ''2-Q4'', Num 4)]"
    by code_simp
  from accepted_pivot_facts [OF d] r e show ?thesis by simp
qed


text \<open>
  Claim C6. A pivot request whose three axis names are not pairwise different is
  rejected: the cube state is returned as it was and the error is written to the
  console. A request with three different names is accepted without an error, and the
  requested mapping is the mapping of the resulting state.
\<close>

theorem pivot_validation:
  "(\<not> distinct [pivotX, pivotY, pivotZ] \<longrightarrow>
      handleApplyPivot pivotX pivotY pivotZ s
        = ([''Error: X, Y, and Z axes must be unique for pivoting.''], s))
   \<and> (distinct [pivotX, pivotY, pivotZ] \<longrightarrow>
        fst (handleApplyPivot pivotX pivotY pivotZ s) = []
      \<and> axisMapping (snd (handleApplyPivot pivotX pivotY pivotZ s))
           = \<lparr> x = pivotX, y = pivotY, z = pivotZ \<rparr>)"
  by (simp add: handleApplyPivot_def pivotEvent_def handlePivot_def recomputeEffect_def
        Let_def)

theorem pivot_validation_witness:
  "\<not> distinct [''continent'', ''region'', ''region'']
   \<and> handleApplyPivot ''continent'' ''region'' ''region'' loadedState
        = ([''Error: X, Y, and Z axes must be unique for pivoting.''], loadedState)
   \<and> distinct [''continent'', ''region'', ''quarter'']
   \<and> fst (handleApplyPivot ''continent'' ''region'' ''quarter'' loadedState) = []
   \<and> axisMapping (snd (handleApplyPivot ''continent'' ''region'' ''quarter'' loadedState))
        = \<lparr> x = ''continent'', y = ''region'', z = ''quarter'' \<rparr>"
proof -
  have n: "\<not> distinct [''continent'', ''region'', ''region'']" by simp
  have d: "distinct [''continent'', ''region'', ''quarter'']" by simp
  from pivot_validation [of "''continent''" "''region''" "''region''" loadedState] n
  have rej: "handleApplyPivot ''continent'' ''region'' ''region'' loadedState
        = ([''Error: X, Y, and Z axes must be unique for pivoting.''], loadedState)"
    by blast
  from pivot_validation [of "''continent''" "''region''" "''quarter''" loadedState] d
  have acc: "fst (handleApplyPivot ''continent'' ''region'' ''quarter'' loadedState) = []
      \<and> axisMapping (snd (handleApplyPivot ''continent'' ''region'' ''quarter'' loadedState))
           = \<lparr> x = ''continent'', y = ''region'', z = ''quarter'' \<rparr>"
    by blast
  from n d rej acc show ?thesis by blast
qed

text \<open>
  The filter object is not replaced by a slice: after a slice on the continent and a
  slice on the region it holds both entries.
\<close>

theorem slice_filters_accumulate_counterexample:
  "cubeData (handleSlice ''region'' ''East'' (handleSlice ''continent'' ''Asia'' loadedState))
     = applySlice (originalCubeDataBeforeRollUp loadedState) ''region'' ''East''
   \<and> currentFilters
        (handleSlice ''region'' ''East'' (handleSlice ''continent'' ''Asia'' loadedState))
     = [(''continent'', ''Asia''), (''region'', ''East'')]
   \<and> currentFilters
        (handleSlice ''region'' ''East'' (handleSlice ''continent'' ''Asia'' loadedState))
     \<noteq> [(''region'', ''East'')]"
  by (simp add: handleSlice_def loadedState_fields Let_def)

text \<open>
  Claim C5, amended. Take a state whose stored baseline is the expansion of the raw
  rows under the current mapping. A recomputation from raw rows that are not empty and
  a reset lead to such a state, and a slice or a dice of such a state is such a state
  again. There a slice or a dice gives the facts of the unfiltered expansion filtered
  by its own criteria alone, whatever slice or dice came before: it does not filter
  the view the previous one left. A dice replaces the filter object; a slice sets its
  own dimension in the filter object and keeps the entries of the other dimensions.
\<close>

theorem filters_evaluate_against_unfiltered_baseline:
  "(originalCubeDataBeforeRollUp s = processRawData (rawData s) (axisMapping s) \<longrightarrow>
       cubeData (handleSlice d2 v2 (handleSlice d1 v1 s))
         = applySlice (processRawData (rawData s) (axisMapping s)) d2 v2
     \<and> cubeData (handleSlice d2 v2 (handleDice fs1 s))
         = applySlice (processRawData (rawData s) (axisMapping s)) d2 v2
     \<and> cubeData (handleDice fs2 (handleDice fs1 s))
         = applyDice (processRawData (rawData s) (axisMapping s)) fs2
     \<and> cubeData (handleDice fs2 (handleSlice d1 v1 s))
         = applyDice (processRawData (rawData s) (axisMapping s)) fs2
     \<and> originalCubeDataBeforeRollUp (handleSlice d1 v1 s)
         = processRawData (rawData (handleSlice d1 v1 s)) (axisMapping (handleSlice d1 v1 s))
     \<and> originalCubeDataBeforeRollUp (handleDice fs1 s)
         = processRawData (rawData (handleDice fs1 s)) (axisMapping (handleDice fs1 s)))
   \<and> currentFilters (handleSlice d2 v2 (handleSlice d1 v1 s))
       = AList.update d2 v2 (AList.update d1 v1 (currentFilters s))
   \<and> currentFilters (handleSlice d2 v2 (handleDice fs1 s)) = AList.update d2 v2 fs1
   \<and> currentFilters (handleDice fs2 (handleSlice d1 v1 s)) = fs2
   \<and> currentFilters (handleDice fs2 (handleDice fs1 s)) = fs2
   \<and> (rawData s \<noteq> [] \<longrightarrow>
        originalCubeDataBeforeRollUp (recomputeEffect s)
          = processRawData (rawData (recomputeEffect s)) (axisMapping (recomputeEffect s)))
   \<and> originalCubeDataBeforeRollUp (resetEvent s)
       = processRawData (rawData (resetEvent s)) (axisMapping (resetEvent s))"
proof -
  have reset: "originalCubeDataBeforeRollUp (resetEvent s)
       = processRawData (rawData (resetEvent s)) (axisMapping (resetEvent s))"
    by (simp add: resetEvent_def handleReset_def recomputeEffect_def Let_def)
  have recompute: "rawData s \<noteq> [] \<longrightarrow>
        originalCubeDataBeforeRollUp (recomputeEffect s)
          = processRawData (rawData (recomputeEffect s)) (axisMapping (recomputeEffect s))"
    by (simp add: recomputeEffect_def Let_def)
  have fs: "currentFilters (handleSlice d2 v2 (handleSlice d1 v1 s))
       = AList.update d2 v2 (AList.update d1 v1 (currentFilters s))
     \<and> currentFilters (handleSlice d2 v2 (handleDice fs1 s)) = AList.update d2 v2 fs1
     \<and> currentFilters (handleDice fs2 (handleSlice d1 v1 s)) = fs2
     \<and> currentFilters (handleDice fs2 (handleDice fs1 s)) = fs2"
    by (simp add: handleSlice_def handleDice_def Let_def)
  have facts: "originalCubeDataBeforeRollUp s = processRawData (rawData s) (axisMapping s) \<longrightarrow>
       cubeData (handleSlice d2 v2 (handleSlice d1 v1 s))
         = applySlice (processRawData (rawData s) (axisMapping s)) d2 v2
     \<and> cubeData (handleSlice d2 v2 (handleDice fs1 s))
         = applySlice (processRawData (rawData s) (axisMapping s)) d2 v2
     \<and> cubeData (handleDice fs2 (handleDice fs1 s))
         = applyDice (processRawData (rawData s) (axisMapping s)) fs2
     \<and> cubeData (handleDice fs2 (handleSlice d1 v1 s))
         = applyDice (processRawData (rawData s) (axisMapping s)) fs2
     \<and> originalCubeDataBeforeRollUp (handleSlice d1 v1 s)
         = processRawData (rawData (handleSlice d1 v1 s)) (axisMapping (handleSlice d1 v1 s))
     \<and> originalCubeDataBeforeRollUp (handleDice fs1 s)
         = processRawData (rawData (handleDice fs1 s)) (axisMapping (handleDice fs1 s))"
    by (simp add: handleSlice_def handleDice_def Let_def)
  from facts fs recompute reset show ?thesis by blast
qed

theorem filters_evaluate_against_unfiltered_baseline_witness:
  "originalCubeDataBeforeRollUp twoRowsState
     = processRawData (rawData twoRowsState) (axisMapping twoRowsState)
   \<and> map item_id (cubeData (handleSlice ''continent'' ''europe'' twoRowsState))
       = [Str ''2-Q1'', Str ''2-Q2'', Str ''2-Q3'', Str ''2-Q4'']
   \<and> map item_id (cubeData (handleSlice ''region'' ''east''
                      (handleSlice ''continent'' ''europe'' twoRowsState)))
       = [Str ''1-Q1'', Str ''1-Q2'', Str ''1-Q3'', Str ''1-Q4'']
   \<and> currentFilters (handleSlice ''region'' ''east''
                      (handleSlice ''continent'' ''europe'' twoRowsState))
       = [(''continent'', ''europe''), (''region'', ''east'')]
   \<and> rawData (initialState\<lparr>rawData := [exampleRow, europeRow]\<rparr>) \<noteq> []
   \<and> map item_id (originalCubeDataBeforeRollUp
        (recomputeEffect (initialState\<lparr>rawData := [exampleRow, europeRow]\<rparr>)))
       = [Str ''1-Q1'', Str ''1-Q2'', Str ''1-Q3'', Str ''1-Q4'',
          Str ''2-Q1'', Str ''2-Q2'', Str ''2-Q3'', Str ''2-Q4'']"
proof -
  have h: "originalCubeDataBeforeRollUp twoRowsState
     = processRawData (rawData twoRowsState) (axisMapping twoRowsState)"
    by (simp add: twoRowsState_fields)
  have n: "rawData (initialState\<lparr>rawData := [exampleRow, europeRow]\<rparr>) \<noteq> []" by simp
  have base: "processRawData (rawData twoRowsState) (axisMapping twoRowsState)
     = processRawData [exampleRow, europeRow] defaultMapping"
    by (simp add: twoRowsState_fields)
  have e1: "map item_id (applySlice (processRawData [exampleRow, europeRow] defaultMapping)
              ''continent'' ''europe'')
       = [Str ''2-Q1'', Str ''2-Q2'', Str ''2-Q3'', Str ''2-Q4'']"
    by code_simp
  have e2: "map item_id (applySlice (processRawData [exampleRow, europeRow] defaultMapping)
              ''region'' ''east'')
       = [Str ''1-Q1'', Str ''1-Q2'', Str ''1-Q3'', Str ''1-Q4'']"
    by code_simp
  have first: "map item_id (cubeData (handleSlice ''continent'' ''europe'' twoRowsState))
       = [Str ''2-Q1'', Str ''2-Q2'', Str ''2-Q3'', Str ''2-Q4'']"
    by (simp add: handleSlice_def twoRowsState_fields e1 Let_def)
  from filters_evaluate_against_unfiltered_baseline
         [of twoRowsState "''region''" "''east''" "''continent''" "''europe''"] h
  have second: "cubeData (handleSlice ''region'' ''east''
                      (handleSlice ''continent'' ''europe'' twoRowsState))
       = applySlice (processRawData (rawData twoRowsState) (axisMapping twoRowsState))
           ''region'' ''east''"
    and filters: "currentFilters (handleSlice ''region'' ''east''
                      (handleSlice ''continent'' ''europe'' twoRowsState))
       = AList.update ''region'' ''east''
           (AList.update ''continent'' ''europe'' (currentFilters twoRowsState))"
    by blast+
  from filters_evaluate_against_unfiltered_baseline
         [of "initialState\<lparr>rawData := [exampleRow, europeRow]\<rparr>"] n
  have fresh: "originalCubeDataBeforeRollUp
        (recomputeEffect (initialState\<lparr>rawData := [exampleRow, europeRow]\<rparr>))
       = processRawData
           (rawData (recomputeEffect (initialState\<lparr>rawData := [exampleRow, europeRow]\<rparr>)))
           (axisMapping (recomputeEffect (initialState\<lparr>rawData := [exampleRow, europeRow]\<rparr>)))"
    by blast
  have ra: "rawData (recomputeEffect (initialState\<lparr>rawData := [exampleRow, europeRow]\<rparr>))
            = [exampleRow, europeRow]"
    and ax: "axisMapping (recomputeEffect (initialState\<lparr>rawData := [exampleRow, europeRow]\<rparr>))
            = defaultMapping"
    by (simp_all add: recomputeEffect_def initialState_def defaultMapping_def Let_def)
  have s2: "map item_id (cubeData (handleSlice ''region'' ''east''
                      (handleSlice ''continent'' ''europe'' twoRowsState)))
       = [Str ''1-Q1'', Str ''1-Q2'', Str ''1-Q3'', Str ''1-Q4'']"
    unfolding second base by (rule e2)
  have f2: "currentFilters (handleSlice ''region'' ''east''
                      (handleSlice ''continent'' ''europe'' twoRowsState))
       = [(''continent'', ''europe''), (''region'', ''east'')]"
    unfolding filters by (simp add: twoRowsState_fields)
  have fr: "map item_id (originalCubeDataBeforeRollUp
        (recomputeEffect (initialState\<lparr>rawData := [exampleRow, europeRow]\<rparr>)))
       = [Str ''1-Q1'', Str ''1-Q2'', Str ''1-Q3'', Str ''1-Q4'',
          Str ''2-Q1'', Str ''2-Q2'', Str ''2-Q3'', Str ''2-Q4'']"
    unfolding fresh ra ax by (rule two_rows_expansion)
  from h first s2 f2 n fr show ?thesis by blast
qed

text \<open>
  A roll-up stores the facts on display in the cell that slice and dice read, the only
  writer of the cell that does not store the expansion of the raw rows. A slice after a
  roll-up of a sliced view therefore filters that view: here it finds no fact of
  Europe, while the expansion of the raw rows has four.
\<close>

lemma slice_after_rollUp_example:
  "map item_id (originalCubeDataBeforeRollUp
     (handleDrillDown (handleRollUp (handleSlice ''continent'' ''asia'' twoRowsState))))
     = [Str ''1-Q1'', Str ''1-Q2'', Str ''1-Q3'', Str ''1-Q4'']
   \<and> cubeData (handleSlice ''continent'' ''europe''
        (handleDrillDown (handleRollUp (handleSlice ''continent'' ''asia'' twoRowsState)))) = []
   \<and> map item_id (applySlice
        (processRawData
           (rawData (handleDrillDown (handleRollUp
              (handleSlice ''continent'' ''asia'' twoRowsState))))
           (axisMapping (handleDrillDown (handleRollUp
              (handleSlice ''continent'' ''asia'' twoRowsState)))))
        ''continent'' ''europe'')
     = [Str ''2-Q1'', Str ''2-Q2'', Str ''2-Q3'', Str ''2-Q4'']"
proof -
  have e0: "applySlice (processRawData [exampleRow] defaultMapping) ''continent'' ''europe'' = []"
    by code_simp
  have e1: "map item_id (applySlice (processRawData [exampleRow, europeRow] defaultMapping)
              ''continent'' ''europe'')
       = [Str ''2-Q1'', Str ''2-Q2'', Str ''2-Q3'', Str ''2-Q4'']"
    by code_simp
  show ?thesis
    by (simp add: handleDrillDown_def handleRollUp_def handleSlice_def twoRowsState_fields
          two_rows_slice_asia one_row_ids e0 e1 Let_def)
qed

section \<open>Roll-up: what the loop computes\<close>

lemma firstOccurrences_snoc:
  "firstOccurrences seen (xs @ [a]) =
     firstOccurrences seen xs
       @ (if rollUpKey a \<in> set seen \<union> rollUpKey ` set xs then [] else [a])"
  by (induction xs arbitrary: seen) auto

lemma keys_firstOccurrences:
  "rollUpKey ` set (firstOccurrences seen xs) = rollUpKey ` set xs - set seen"
  by (induction xs arbitrary: seen) auto

lemma distinct_keys_firstOccurrences:
  "distinct (map rollUpKey (firstOccurrences seen xs))"
proof (induction xs arbitrary: seen)
  case Nil
  show ?case by simp
next
  case (Cons i xs)
  have "rollUpKey i \<notin> rollUpKey ` set (firstOccurrences (rollUpKey i # seen) xs)"
    unfolding keys_firstOccurrences by simp
  with Cons.IH show ?case by simp
qed

lemma map_of_keyed:
  "distinct (map key is) \<Longrightarrow> i \<in> set is \<Longrightarrow>
     map_of (map (\<lambda>j. (key j, g j)) is) (key i) = Some (g i)"
  by (induction "is") (auto simp: rev_image_eqI)

lemma update_keyed:
  "distinct (map key is) \<Longrightarrow> i \<in> set is \<Longrightarrow>
     AList.update (key i) v (map (\<lambda>j. (key j, g j)) is)
       = map (\<lambda>j. (key j, if key j = key i then v else g j)) is"
  by (induction "is") (auto simp: rev_image_eqI)

lemma update_fresh: "k \<notin> fst ` set al \<Longrightarrow> AList.update k v al = al @ [(k, v)]"
  by (induction al) auto

lemma update_fresh_last:
  "k \<notin> fst ` set al \<Longrightarrow> AList.update k v' (al @ [(k, v)]) = al @ [(k, v')]"
  by (induction al) auto

lemma map_of_fresh_last: "k \<notin> fst ` set al \<Longrightarrow> map_of (al @ [(k, v)]) k = Some v"
  by (induction al) auto

lemma rollUpTotal_snoc:
  "rollUpTotal k (xs @ [a]) =
     (if rollUpKey a = k \<and> truthy (quarter a) \<and> val a \<noteq> Undefined
      then jsAdd (rollUpTotal k xs) (val a) else rollUpTotal k xs)"
  by (simp add: rollUpTotal_def)

lemma rollUpTotal_fresh: "k \<notin> rollUpKey ` set xs \<Longrightarrow> rollUpTotal k xs = Num 0"
proof -
  assume "k \<notin> rollUpKey ` set xs"
  then have "filter (\<lambda>i. rollUpKey i = k \<and> truthy (quarter i) \<and> val i \<noteq> Undefined) xs = []"
    by (auto simp: filter_empty_conv)
  then show ?thesis by (simp add: rollUpTotal_def)
qed

lemma groupEntry_snoc:
  "groupEntry i (xs @ [a]) =
     (if rollUpKey a = rollUpKey i \<and> truthy (quarter a) \<and> val a \<noteq> Undefined
      then (groupEntry i xs)\<lparr>Total := jsAdd (Total (groupEntry i xs)) (val a)\<rparr>
      else groupEntry i xs)"
  by (simp add: groupEntry_def rollUpTotal_snoc)

lemma rollUpStep_rollUpMap: "rollUpStep (rollUpMap xs) a = rollUpMap (xs @ [a])"
proof (cases "rollUpKey a \<in> rollUpKey ` set xs")
  case True
  let ?firsts = "firstOccurrences [] xs"
  from True have "rollUpKey a \<in> rollUpKey ` set ?firsts"
    by (simp add: keys_firstOccurrences)
  then obtain i where i: "i \<in> set ?firsts" and ki: "rollUpKey i = rollUpKey a"
    by (auto simp: image_iff)
  have d: "distinct (map rollUpKey ?firsts)"
    by (rule distinct_keys_firstOccurrences)
  have look: "map_of (rollUpMap xs) (rollUpKey a) = Some (groupEntry i xs)"
    unfolding rollUpMap_def ki [symmetric] by (rule map_of_keyed [OF d i])
  have same: "firstOccurrences [] (xs @ [a]) = ?firsts"
    using True by (simp add: firstOccurrences_snoc)
  show ?thesis
  proof (cases "truthy (quarter a) \<and> val a \<noteq> Undefined")
    case guard: True
    have "rollUpStep (rollUpMap xs) a
        = AList.update (rollUpKey i) (groupEntry i (xs @ [a])) (rollUpMap xs)"
      using guard look ki by (simp add: rollUpStep_def Let_def groupEntry_snoc)
    also have "\<dots> = map (\<lambda>j. (rollUpKey j,
                        if rollUpKey j = rollUpKey i then groupEntry i (xs @ [a])
                        else groupEntry j xs)) ?firsts"
      unfolding rollUpMap_def by (rule update_keyed [OF d i])
    also have "\<dots> = map (\<lambda>j. (rollUpKey j, groupEntry j (xs @ [a]))) ?firsts"
    proof (rule map_cong [OF refl])
      fix j assume j: "j \<in> set ?firsts"
      show "(rollUpKey j, if rollUpKey j = rollUpKey i then groupEntry i (xs @ [a])
                          else groupEntry j xs)
            = (rollUpKey j, groupEntry j (xs @ [a]))"
      proof (cases "rollUpKey j = rollUpKey i")
        case True
        with d i j have "j = i" by (meson distinct_map inj_onD)
        with True show ?thesis by simp
      next
        case False
        with ki show ?thesis by (simp add: groupEntry_snoc)
      qed
    qed
    finally show ?thesis by (simp add: rollUpMap_def same)
  next
    case guard: False
    have "rollUpStep (rollUpMap xs) a = rollUpMap xs"
      using guard look by (auto simp: rollUpStep_def Let_def)
    moreover have "groupEntry j (xs @ [a]) = groupEntry j xs" for j
      using guard by (auto simp: groupEntry_snoc)
    ultimately show ?thesis by (simp add: rollUpMap_def same)
  qed
next
  case False
  have fresh: "rollUpKey a \<notin> fst ` set (rollUpMap xs)"
    using False keys_firstOccurrences [of "[]" xs]
    by (simp add: rollUpMap_def image_image)
  have none: "map_of (rollUpMap xs) (rollUpKey a) = None"
    using fresh by (simp add: map_of_eq_None_iff)
  have step: "rollUpStep (rollUpMap xs) a
      = (if truthy (quarter a) \<and> val a \<noteq> Undefined
         then AList.update (rollUpKey a)
                ((newEntry (rollUpKey a) a)
                   \<lparr>Total := jsAdd (Total (newEntry (rollUpKey a) a)) (val a)\<rparr>)
                (rollUpMap xs @ [(rollUpKey a, newEntry (rollUpKey a) a)])
         else rollUpMap xs @ [(rollUpKey a, newEntry (rollUpKey a) a)])"
    unfolding rollUpStep_def Let_def none update_fresh [OF fresh]
    by (simp only: simp_thms if_True map_of_fresh_last [OF fresh] option.case)
  have zero: "Total (newEntry (rollUpKey a) a) = Num 0"
    by (simp add: newEntry_def)
  have old: "map (\<lambda>j. (rollUpKey j, groupEntry j (xs @ [a]))) (firstOccurrences [] xs)
           = rollUpMap xs"
    unfolding rollUpMap_def
  proof (rule map_cong [OF refl])
    fix j assume "j \<in> set (firstOccurrences [] xs)"
    with False keys_firstOccurrences [of "[]" xs] have "rollUpKey a \<noteq> rollUpKey j" by auto
    then show "(rollUpKey j, groupEntry j (xs @ [a])) = (rollUpKey j, groupEntry j xs)"
      by (simp add: groupEntry_snoc)
  qed
  have last: "groupEntry a (xs @ [a])
      = (if truthy (quarter a) \<and> val a \<noteq> Undefined
         then (newEntry (rollUpKey a) a)\<lparr>Total := jsAdd (Num 0) (val a)\<rparr>
         else newEntry (rollUpKey a) a)"
    using False by (simp add: groupEntry_def rollUpTotal_snoc rollUpTotal_fresh newEntry_def)
  have new: "rollUpMap (xs @ [a]) = rollUpMap xs @ [(rollUpKey a, groupEntry a (xs @ [a]))]"
    using False old by (simp add: rollUpMap_def [of "xs @ [a]"] firstOccurrences_snoc)
  show ?thesis
    unfolding step new last zero by (simp add: update_fresh_last [OF fresh])
qed

lemma foldl_rollUpStep: "foldl rollUpStep [] data = rollUpMap data"
proof (induction data rule: rev_induct)
  case Nil
  show ?case by (simp add: rollUpMap_def)
next
  case (snoc a xs)
  then show ?case by (simp add: rollUpStep_rollUpMap)
qed

text \<open>
  The roll-up emits one fact for each aggregation key, in the order in which the keys
  first occur; the fact has the dimensions and the four measures of the first item with
  that key and the accumulated total of all items with that key.
\<close>

lemma applyRollUp_by_key:
  "applyRollUp data
     = map (\<lambda>first.
              \<lparr> item_id = Str (rollUpKey first),
                continent = continent first, region = region first, product = product first,
                quarter = Str ''Total'', val = Undefined,
                Total = rollUpTotal (rollUpKey first) data,
                Q1 = Q1 first, Q2 = Q2 first, Q3 = Q3 first, Q4 = Q4 first \<rparr>)
         (firstOccurrences [] data)"
  by (simp add: applyRollUp_def foldl_rollUpStep rollUpMap_def comp_def groupEntry_def
        newEntry_def)

lemma foldl_jsAdd_Num:
  "list_all (\<lambda>i. val i = Num (numVal i)) xs \<Longrightarrow>
     foldl jsAdd (Num acc) (map val xs) = Num (acc + sum_list (map numVal xs))"
proof (induction xs arbitrary: acc)
  case Nil
  show ?case by simp
next
  case (Cons i xs)
  from Cons.prems have v: "val i = Num (numVal i)"
    and rest: "list_all (\<lambda>i. val i = Num (numVal i)) xs"
    by simp_all
  have "jsAdd (Num acc) (val i) = Num (acc + numVal i)"
    by (subst v) (simp add: jsAdd_def)
  with Cons.IH [OF rest, of "acc + numVal i"] show ?case by (simp add: add.assoc)
qed

lemma rollUpTotal_sum:
  assumes "quarterFacts data"
  shows "rollUpTotal k data
           = Num (sum_list (map numVal (filter (\<lambda>i. rollUpKey i = k) data)))"
proof -
  from assms have f: "filter (\<lambda>i. rollUpKey i = k \<and> truthy (quarter i) \<and> val i \<noteq> Undefined) data
                    = filter (\<lambda>i. rollUpKey i = k) data"
    by (intro filter_cong refl) (auto simp: quarterFacts_def list_all_iff)
  from assms have "list_all (\<lambda>i. val i = Num (numVal i)) (filter (\<lambda>i. rollUpKey i = k) data)"
    by (auto simp: quarterFacts_def list_all_iff)
  from foldl_jsAdd_Num [OF this, of 0] show ?thesis
    by (simp add: rollUpTotal_def f)
qed

lemma same_key_same_triple:
  assumes "keysSeparate data" and "i \<in> set data" and "j \<in> set data"
  shows "rollUpKey i = rollUpKey j \<longleftrightarrow> triple i = triple j"
proof
  assume "rollUpKey i = rollUpKey j"
  with assms show "triple i = triple j"
    unfolding keysSeparate_def list_all_iff by blast
next
  assume "triple i = triple j"
  then show "rollUpKey i = rollUpKey j" by (simp add: triple_def rollUpKey_def)
qed

lemma firstOccurrences_subset: "set (firstOccurrences seen xs) \<subseteq> set xs"
  by (induction xs arbitrary: seen) auto

lemma sum_list_filter_mset:
  "mset xs = mset ys \<Longrightarrow>
     sum_list (map f (filter P xs)) = (sum_list (map f (filter P ys)) :: int)"
proof -
  assume "mset xs = mset ys"
  then have "mset (map f (filter P xs)) = mset (map f (filter P ys))"
    by simp
  then show ?thesis by (metis sum_mset_sum_list)
qed

lemma distinct_map_transfer:
  "distinct (map f xs) \<Longrightarrow> (\<And>a b. a \<in> set xs \<Longrightarrow> b \<in> set xs \<Longrightarrow> g a = g b \<Longrightarrow> f a = f b)
     \<Longrightarrow> distinct (map g xs)"
  by (induction xs) (auto simp: image_iff)

lemma triple_rollUp_entry:
  "map triple (applyRollUp data) = map triple (firstOccurrences [] data)"
  by (simp add: applyRollUp_by_key triple_def comp_def)

text \<open>
  Where the keys separate the groups and the items are quarter facts, the roll-up is
  the aggregation by (continent, region, product): one fact for each group, with the
  sum of the group's values as its total.
\<close>

lemma rollUp_groups_when_keys_separate:
  assumes sep: "keysSeparate data" and facts: "quarterFacts data"
  shows "distinct (map triple (applyRollUp data))
       \<and> set (map triple (applyRollUp data)) = triple ` set data
       \<and> (\<forall>f \<in> set (applyRollUp data).
             quarter f = Str ''Total''
           \<and> Total f = Num (sum_list (map numVal (filter (\<lambda>i. triple i = triple f) data))))"
proof -
  let ?firsts = "firstOccurrences [] data"
  have sub: "set ?firsts \<subseteq> set data" by (rule firstOccurrences_subset)
  have d: "distinct (map triple ?firsts)"
  proof (rule distinct_map_transfer [OF distinct_keys_firstOccurrences])
    fix a b assume "a \<in> set ?firsts" "b \<in> set ?firsts" "triple a = triple b"
    then show "rollUpKey a = rollUpKey b" by (simp add: triple_def rollUpKey_def)
  qed
  have s: "triple ` set ?firsts = triple ` set data"
  proof
    show "triple ` set ?firsts \<subseteq> triple ` set data" using sub by auto
    show "triple ` set data \<subseteq> triple ` set ?firsts"
    proof
      fix t assume "t \<in> triple ` set data"
      then obtain i where i: "i \<in> set data" and t: "t = triple i" by auto
      from i have "rollUpKey i \<in> rollUpKey ` set ?firsts"
        by (simp add: keys_firstOccurrences)
      then obtain j where j: "j \<in> set ?firsts" and k: "rollUpKey j = rollUpKey i"
        by (auto simp: image_iff)
      from j sub have "j \<in> set data" by auto
      with same_key_same_triple [OF sep this i] k have "triple j = triple i" by simp
      with j t show "t \<in> triple ` set ?firsts" by (metis imageI)
    qed
  qed
  have tot: "quarter f = Str ''Total''
           \<and> Total f = Num (sum_list (map numVal (filter (\<lambda>i. triple i = triple f) data)))"
    if f: "f \<in> set (applyRollUp data)" for f
  proof -
    from f obtain first where first: "first \<in> set ?firsts"
      and fe: "f = \<lparr> item_id = Str (rollUpKey first),
                continent = continent first, region = region first, product = product first,
                quarter = Str ''Total'', val = Undefined,
                Total = rollUpTotal (rollUpKey first) data,
                Q1 = Q1 first, Q2 = Q2 first, Q3 = Q3 first, Q4 = Q4 first \<rparr>"
      unfolding applyRollUp_by_key set_map by (rule imageE)
    have q: "quarter f = Str ''Total''" by (simp add: fe)
    have t: "Total f = rollUpTotal (rollUpKey first) data" by (simp add: fe)
    have tr: "triple f = triple first" by (simp add: fe triple_def)
    from first sub have fd: "first \<in> set data" by auto
    have "filter (\<lambda>i. rollUpKey i = rollUpKey first) data
        = filter (\<lambda>i. triple i = triple f) data"
    proof (rule filter_cong [OF refl])
      fix i assume "i \<in> set data"
      from same_key_same_triple [OF sep this fd]
      show "(rollUpKey i = rollUpKey first) = (triple i = triple f)"
        unfolding tr .
    qed
    with t q show ?thesis by (simp add: rollUpTotal_sum [OF facts])
  qed
  from d s tot show ?thesis by (simp add: triple_rollUp_entry)
qed

text \<open>Under the same conditions the total of each group does not depend on the order
  of the facts.\<close>

lemma rollUp_totals_order_independent:
  assumes sep: "keysSeparate data" and facts: "quarterFacts data"
    and perm: "mset data' = mset data"
  shows "\<forall>f \<in> set (applyRollUp data).
           \<exists>f' \<in> set (applyRollUp data'). triple f' = triple f \<and> Total f' = Total f"
proof
  fix f assume f: "f \<in> set (applyRollUp data)"
  from perm have sets: "set data' = set data" by (rule mset_eq_setD)
  from sep have sep': "keysSeparate data'"
    unfolding keysSeparate_def list_all_iff sets .
  from facts have facts': "quarterFacts data'"
    unfolding quarterFacts_def list_all_iff sets .
  note g = rollUp_groups_when_keys_separate [OF sep facts]
  note g' = rollUp_groups_when_keys_separate [OF sep' facts']
  from f have "triple f \<in> set (map triple (applyRollUp data))" by simp
  also from g have "\<dots> = triple ` set data" by blast
  also from g' sets have "\<dots> = set (map triple (applyRollUp data'))" by metis
  finally obtain f' where f': "f' \<in> set (applyRollUp data')" and t: "triple f' = triple f"
    by auto
  from g f have "Total f = Num (sum_list (map numVal (filter (\<lambda>i. triple i = triple f) data)))"
    by blast
  moreover from g' f'
  have "Total f' = Num (sum_list (map numVal (filter (\<lambda>i. triple i = triple f') data')))"
    by blast
  ultimately have "Total f' = Total f"
    using sum_list_filter_mset [OF perm, of numVal "\<lambda>i. triple i = triple f"] t by simp
  with f' t show "\<exists>f' \<in> set (applyRollUp data'). triple f' = triple f \<and> Total f' = Total f"
    by blast
qed

lemma split_at_separator:
  "c \<notin> set a \<Longrightarrow> c \<notin> set a' \<Longrightarrow> a @ c # r = a' @ c # r' \<Longrightarrow> a = a' \<and> r = r'"
proof (induction a arbitrary: a')
  case Nil
  then show ?case by (cases a') auto
next
  case (Cons h a)
  then show ?case by (cases a') auto
qed

lemma dashFree_key_triple:
  assumes "dashFree i" and "dashFree j" and "rollUpKey i = rollUpKey j"
  shows "triple i = triple j"
proof -
  from assms(1) obtain c r p where i: "continent i = Str c" "region i = Str r"
      "product i = Str p" "CHR ''-'' \<notin> set c" "CHR ''-'' \<notin> set r"
    by (auto simp: dashFree_def split: jsval.splits)
  from assms(2) obtain c' r' p' where j: "continent j = Str c'" "region j = Str r'"
      "product j = Str p'" "CHR ''-'' \<notin> set c'" "CHR ''-'' \<notin> set r'"
    by (auto simp: dashFree_def split: jsval.splits)
  from assms(3) have "c @ CHR ''-'' # (r @ CHR ''-'' # p) = c' @ CHR ''-'' # (r' @ CHR ''-'' # p')"
    by (simp add: rollUpKey_def i j)
  from split_at_separator [OF i(4) j(4) this]
  have c: "c = c'" and rest: "r @ CHR ''-'' # p = r' @ CHR ''-'' # p'" by simp_all
  from split_at_separator [OF i(5) j(5) rest] have "r = r'" and "p = p'" by simp_all
  with c show ?thesis by (simp add: triple_def i j)
qed

text \<open>The keys separate the groups when no continent and no region contains the
  separator.\<close>

lemma keysSeparate_dashFree: "list_all dashFree data \<Longrightarrow> keysSeparate data"
  unfolding keysSeparate_def list_all_iff by (blast intro: dashFree_key_triple)

lemma rollUp_groups_example:
  "keysSeparate (processRawData [exampleRow, exampleRow2] defaultMapping)
   \<and> quarterFacts (processRawData [exampleRow, exampleRow2] defaultMapping)
   \<and> map (\<lambda>f. (triple f, Total f))
        (applyRollUp (processRawData [exampleRow, exampleRow2] defaultMapping))
       = [((Str ''Asia'', Str ''East'', Str ''A''), Num 100),
          ((Str ''Europe'', Str ''West'', Str ''B''), Num 3)]"
  by code_simp

section \<open>Roll-up claims\<close>

text \<open>
  Claim C10. Two facts with the triples (a-b, c, p) and (a, b-c, p) are different
  groups with the same aggregation key, and their roll-up is a single fact: it carries
  the dimensions and measures of the first and the sum of both values.
\<close>

theorem rollUp_key_collision:
  "rollUpKey (f\<lparr>continent := Str ''a-b'', region := Str ''c'', product := Str p\<rparr>)
     = rollUpKey (g\<lparr>continent := Str ''a'', region := Str ''b-c'', product := Str p\<rparr>)
   \<and> (Str ''a-b'', Str ''c'', Str p) \<noteq> (Str ''a'', Str ''b-c'', Str p)
   \<and> applyRollUp
        [f\<lparr>continent := Str ''a-b'', region := Str ''c'', product := Str p,
            quarter := Str ''Q1'', val := Num v\<rparr>,
         g\<lparr>continent := Str ''a'', region := Str ''b-c'', product := Str p,
            quarter := Str ''Q1'', val := Num w\<rparr>]
     = [\<lparr> item_id = Str (''a-b-c-'' @ p), continent = Str ''a-b'', region = Str ''c'',
           product = Str p, quarter = Str ''Total'', val = Undefined, Total = Num (v + w),
           Q1 = Q1 f, Q2 = Q2 f, Q3 = Q3 f, Q4 = Q4 f \<rparr>]"
  by (simp add: applyRollUp_def rollUpStep_def rollUpKey_def newEntry_def jsAdd_def Let_def)

text \<open>
  Claim C1 at the rows \<open>collidingRows\<close>: their eight facts belong to two groups, and
  the roll-up emits one fact, whose total 110 is the sum over both groups (100 and 10).
\<close>

theorem rollUp_merges_two_groups:
  "remdups (map (\<lambda>f. (continent f, region f, product f))
              (processRawData collidingRows defaultMapping))
     = [(Str ''a-b'', Str ''c'', Str ''A''), (Str ''a'', Str ''b-c'', Str ''A'')]
   \<and> applyRollUp (processRawData collidingRows defaultMapping)
     = [\<lparr> item_id = Str ''a-b-c-A'', continent = Str ''a-b'', region = Str ''c'',
           product = Str ''A'', quarter = Str ''Total'', val = Undefined, Total = Num 110,
           Q1 = Num 10, Q2 = Num 20, Q3 = Num 30, Q4 = Num 40 \<rparr>]"
  by code_simp

end
